theory Spec2Isabelle
  imports Main "HOL-Library.AList"
begin

section \<open>Values of the vendor's JSON and Python's view of them\<close>

text \<open>
  The client of \<^verbatim>\<open>apollo_extractor.py\<close> handles decoded JSON: \<^verbatim>\<open>Dict[str, Any]\<close>.
  A value is one of Python's \<^verbatim>\<open>None\<close>, \<^verbatim>\<open>bool\<close>, \<^verbatim>\<open>int\<close>, \<^verbatim>\<open>float\<close>, \<^verbatim>\<open>str\<close>,
  \<^verbatim>\<open>list\<close> and \<^verbatim>\<open>dict\<close>. A dict is an association list in insertion order whose
  lookup takes the first binding of a key (a Python dict binds a key once). A float is
  kept as mantissa and exponent; the code only ever asks whether it is zero. Characters
  of a \<^verbatim>\<open>str\<close> are taken as code points below 256.
\<close>

datatype json =
    JNull
  | JBool bool
  | JInt int
  | JFloat int int
  | JStr string
  | JList "json list"
  | JObj "(string \<times> json) list"

type_synonym pydict = "(string \<times> json) list"

datatype error = AttributeError | TypeError | KeyError | ValueError

text \<open>Truth value of an object, as \<^verbatim>\<open>if x\<close>, \<^verbatim>\<open>not x\<close> and \<^verbatim>\<open>x or y\<close> test it.\<close>

fun truthy :: "json \<Rightarrow> bool" where
  "truthy JNull = False"
| "truthy (JBool b) = b"
| "truthy (JInt i) = (i \<noteq> 0)"
| "truthy (JFloat m e) = (m \<noteq> 0)"
| "truthy (JStr s) = (s \<noteq> [])"
| "truthy (JList xs) = (xs \<noteq> [])"
| "truthy (JObj kvs) = (kvs \<noteq> [])"

definition py_or :: "json \<Rightarrow> json \<Rightarrow> json" where
  "py_or a b = (if truthy a then a else b)"

text \<open>
  \<^verbatim>\<open>d.get(k, default)\<close> and \<^verbatim>\<open>d.get(k)\<close> on a dict. On any other value
  \<^verbatim>\<open>.get\<close> raises \<^verbatim>\<open>AttributeError\<close>; the methods below test for a dict first.
\<close>

definition dict_get_default :: "pydict \<Rightarrow> string \<Rightarrow> json \<Rightarrow> json" where
  "dict_get_default d k dflt = (case map_of d k of None \<Rightarrow> dflt | Some v \<Rightarrow> v)"

definition dict_get :: "pydict \<Rightarrow> string \<Rightarrow> json" where
  "dict_get d k = dict_get_default d k JNull"

text \<open>\<^verbatim>\<open>d[k]\<close> on a dict raises \<^verbatim>\<open>KeyError\<close> for a missing key.\<close>

definition subscript :: "pydict \<Rightarrow> string \<Rightarrow> error + json" where
  "subscript d k = (case map_of d k of None \<Rightarrow> Inl KeyError | Some v \<Rightarrow> Inr v)"

text \<open>
  \<^verbatim>\<open>for e in x\<close>: a list yields its elements, a dict its keys, a string its
  characters (strings of length one); anything else is not iterable.
\<close>

fun py_iter :: "json \<Rightarrow> error + json list" where
  "py_iter (JList xs) = Inr xs"
| "py_iter (JObj d) = Inr (map (\<lambda>kv. JStr (fst kv)) d)"
| "py_iter (JStr s) = Inr (map (\<lambda>c. JStr [c]) s)"
| "py_iter _ = Inl TypeError"

text \<open>
  \<^verbatim>\<open>str.strip()\<close>: drops leading and trailing characters for which
  \<^verbatim>\<open>str.isspace()\<close> holds.
\<close>

definition isspace :: "char \<Rightarrow> bool" where
  "isspace c = ((of_char c :: nat) \<in> {9, 10, 11, 12, 13, 28, 29, 30, 31, 32, 133, 160})"

definition strip :: "string \<Rightarrow> string" where
  "strip s = rev (dropWhile isspace (rev (dropWhile isspace s)))"

text \<open>
  An f-string field \<^verbatim>\<open>{v}\<close> inserts \<^verbatim>\<open>str(v)\<close>: a string as it is; for every other
  value Python's own rendering, which is taken as the parameter \<open>render\<close>.
\<close>

definition py_str :: "(json \<Rightarrow> string) \<Rightarrow> json \<Rightarrow> string" where
  "py_str render v = (case v of JStr s \<Rightarrow> s | _ \<Rightarrow> render v)"

definition of_optional :: "string option \<Rightarrow> json" where
  "of_optional x = (case x of None \<Rightarrow> JNull | Some s \<Rightarrow> JStr s)"

section \<open>Configuration\<close>

definition OUTPUT_FIELDNAMES :: "string list" where
  "OUTPUT_FIELDNAMES =
    [''input_linkedin_url'', ''first_name'', ''last_name'', ''job_title'',
     ''company_name'', ''company_website'', ''industry'', ''verified_email'',
     ''verified_mobile_phone'', ''linkedin_url'', ''apollo_person_id'',
     ''lookup_used'', ''apollo_error'']"

section \<open>The client and the world it acts on\<close>

record CreditUsage =
  match_credits :: int
  enrich_credits :: int
  email_credits :: int
  mobile_credits :: int

text \<open>
  What \<^verbatim>\<open>requests.post\<close> followed by \<^verbatim>\<open>raise_for_status\<close> and \<^verbatim>\<open>json()\<close> gives:
  a \<^verbatim>\<open>RequestException\<close> with its text and the status code of its response, when
  it has one, or the decoded body (a dict, by the signature of \<^verbatim>\<open>_post\<close>).
\<close>

datatype http_result = RequestException string "int option" | Body pydict

text \<open>
  The vendor is outside the program: its answer to the \<open>n\<close>-th request of a run,
  given the endpoint and the payload.
\<close>

type_synonym network = "nat \<Rightarrow> string \<Rightarrow> json \<Rightarrow> http_result"

datatype file_content = CsvFile "string list" "pydict list" | JsonFile "pydict list"

datatype event =
    InputNotFound string
  | MissingColumn string
  | Processed nat
  | CsvSaved string
  | JsonSaved string
  | Unsupported
  | CreditSummary CreditUsage

text \<open>
  The state threaded through every method: the credit counters of the client
  (\<^verbatim>\<open>self.credits\<close>), the requests sent so far, the lines printed and the files
  written. The delay before a request (\<^verbatim>\<open>time.sleep\<close>) is not modelled.
\<close>

record state =
  credits :: CreditUsage
  requests :: "(string \<times> json) list"
  console :: "event list"
  files :: "(string \<times> file_content) list"

subsection \<open>\<^verbatim>\<open>_post\<close>\<close>

definition post :: "network \<Rightarrow> string \<Rightarrow> json \<Rightarrow> state \<Rightarrow> pydict \<times> state" where
  "post net endpoint payload st =
    (let st' = st\<lparr>requests := requests st @ [(endpoint, payload)]\<rparr> in
     case net (length (requests st)) endpoint payload of
       Body d \<Rightarrow> (d, st')
     | RequestException msg code \<Rightarrow>
         ([(''error'', JStr msg),
           (''status_code'', JInt (case code of None \<Rightarrow> 500 | Some c \<Rightarrow> c))], st'))"

subsection \<open>Step 1: \<^verbatim>\<open>match_by_linkedin\<close>\<close>

definition match_payload :: "string \<Rightarrow> json" where
  "match_payload linkedin_url =
    JObj [(''person'', JObj [(''linkedin_url'', JStr (strip linkedin_url))])]"

definition match_by_linkedin :: "network \<Rightarrow> string \<Rightarrow> state \<Rightarrow> pydict \<times> state" where
  "match_by_linkedin net linkedin_url st =
    (let payload = match_payload linkedin_url;
         st1 = st\<lparr>credits := (credits st)\<lparr>match_credits := match_credits (credits st) + 1\<rparr>\<rparr>
     in post net ''people/match'' payload st1)"

subsection \<open>Step 2: \<^verbatim>\<open>enrich_person\<close>\<close>

definition enrich_payload :: "pydict \<Rightarrow> pydict \<Rightarrow> json" where
  "enrich_payload person org =
    JObj [(''linkedin_url'', dict_get person ''linkedin_url''),
          (''first_name'', dict_get person ''first_name''),
          (''last_name'', dict_get person ''last_name''),
          (''organization_name'', dict_get org ''name'')]"

definition enrich_person :: "network \<Rightarrow> json \<Rightarrow> state \<Rightarrow> (error + pydict) \<times> state" where
  "enrich_person net person st =
    (case person of
       JObj pd \<Rightarrow>
         (case dict_get_default pd ''organization'' (JObj []) of
            JObj od \<Rightarrow>
              (let payload = enrich_payload pd od;
                   st1 = st\<lparr>credits := (credits st)\<lparr>enrich_credits := enrich_credits (credits st) + 1\<rparr>\<rparr>
               in case post net ''people/enrich'' payload st1 of (r, st2) \<Rightarrow> (Inr r, st2))
          | _ \<Rightarrow> (Inl AttributeError, st))
     | _ \<Rightarrow> (Inl AttributeError, st))"

subsection \<open>Extraction helpers\<close>

text \<open>
  The body of the loop in \<^verbatim>\<open>extract_verified_email\<close>: the first candidate that
  passes the test ends the loop, increments the counter and gives its \<^verbatim>\<open>email\<close>;
  a candidate that is not a dict raises at its first \<^verbatim>\<open>.get\<close>.
\<close>

definition email_ok :: "pydict \<Rightarrow> bool" where
  "email_ok e =
    (dict_get e ''status'' = JStr ''verified'' \<and>
     dict_get e ''type'' \<in> set [JStr ''work'', JStr ''email''])"

fun email_loop :: "json list \<Rightarrow> state \<Rightarrow> (error + json) \<times> state" where
  "email_loop [] st = (Inr JNull, st)"
| "email_loop (JObj e # es) st =
    (if email_ok e
     then (Inr (dict_get e ''email''),
           st\<lparr>credits := (credits st)\<lparr>email_credits := email_credits (credits st) + 1\<rparr>\<rparr>)
     else email_loop es st)"
| "email_loop (_ # es) st = (Inl AttributeError, st)"

definition extract_verified_email :: "json \<Rightarrow> state \<Rightarrow> (error + json) \<times> state" where
  "extract_verified_email person st =
    (case person of
       JObj pd \<Rightarrow>
         (case py_iter (dict_get_default pd ''emails'' (JList [])) of
            Inl err \<Rightarrow> (Inl err, st)
          | Inr emails \<Rightarrow> email_loop emails st)
     | _ \<Rightarrow> (Inl AttributeError, st))"

definition phone_ok :: "pydict \<Rightarrow> bool" where
  "phone_ok p =
    (dict_get p ''label'' = JStr ''mobile'' \<and> dict_get p ''status'' = JStr ''verified'')"

fun phone_loop :: "json list \<Rightarrow> state \<Rightarrow> (error + json) \<times> state" where
  "phone_loop [] st = (Inr JNull, st)"
| "phone_loop (JObj p # ps) st =
    (if phone_ok p
     then (Inr (py_or (dict_get p ''sanitized_number'') (dict_get p ''number'')),
           st\<lparr>credits := (credits st)\<lparr>mobile_credits := mobile_credits (credits st) + 1\<rparr>\<rparr>)
     else phone_loop ps st)"
| "phone_loop (_ # ps) st = (Inl AttributeError, st)"

definition extract_verified_mobile :: "json \<Rightarrow> state \<Rightarrow> (error + json) \<times> state" where
  "extract_verified_mobile person st =
    (case person of
       JObj pd \<Rightarrow>
         (case py_iter (dict_get_default pd ''phone_numbers'' (JList [])) of
            Inl err \<Rightarrow> (Inl err, st)
          | Inr phones \<Rightarrow> phone_loop phones st)
     | _ \<Rightarrow> (Inl AttributeError, st))"

subsection \<open>\<^verbatim>\<open>_extract_all\<close> and \<^verbatim>\<open>_empty_result\<close>\<close>

text \<open>
  The dict display evaluates its values in order: the reads of \<open>person\<close> and of
  \<open>org\<close> come before the two extraction helpers, the email helper before the mobile
  helper.
\<close>

definition extract_all :: "json \<Rightarrow> state \<Rightarrow> (error + pydict) \<times> state" where
  "extract_all person st =
    (case person of
       JObj pd \<Rightarrow>
         (case dict_get_default pd ''organization'' (JObj []) of
            JObj org \<Rightarrow>
              (case extract_verified_email person st of
                 (Inl err, st1) \<Rightarrow> (Inl err, st1)
               | (Inr email, st1) \<Rightarrow>
                   (case extract_verified_mobile person st1 of
                      (Inl err, st2) \<Rightarrow> (Inl err, st2)
                    | (Inr mobile, st2) \<Rightarrow>
                        (Inr [(''input_linkedin_url'', dict_get pd ''linkedin_url''),
                              (''first_name'', dict_get pd ''first_name''),
                              (''last_name'', dict_get pd ''last_name''),
                              (''job_title'', dict_get pd ''title''),
                              (''company_name'', dict_get org ''name''),
                              (''company_website'', dict_get org ''website_url''),
                              (''industry'', dict_get org ''industry''),
                              (''verified_email'', email),
                              (''verified_mobile_phone'', mobile),
                              (''linkedin_url'', dict_get pd ''linkedin_url''),
                              (''apollo_person_id'', dict_get pd ''id''),
                              (''lookup_used'', JNull),
                              (''apollo_error'', JNull)], st2)))
          | _ \<Rightarrow> (Inl AttributeError, st))
     | _ \<Rightarrow> (Inl AttributeError, st))"

definition empty_result :: "string option \<Rightarrow> string \<Rightarrow> pydict" where
  "empty_result linkedin_url err =
    AList.update ''apollo_error'' (JStr err)
      (AList.update ''input_linkedin_url'' (of_optional linkedin_url)
        (map (\<lambda>field. (field, JNull)) OUTPUT_FIELDNAMES))"

subsection \<open>The lookup workflow: \<^verbatim>\<open>lookup_person\<close>\<close>

definition lookup_person ::
  "network \<Rightarrow> (json \<Rightarrow> string) \<Rightarrow> string option \<Rightarrow> state \<Rightarrow> (error + pydict) \<times> state" where
  "lookup_person net render linkedin_url st =
    (case linkedin_url of
       None \<Rightarrow> (Inr (empty_result None ''Empty LinkedIn URL.''), st)
     | Some url \<Rightarrow>
       if \<not> truthy (JStr url)
       then (Inr (empty_result None ''Empty LinkedIn URL.''), st)
       else
       (case match_by_linkedin net url st of (match, st1) \<Rightarrow>
        (case map_of match ''error'' of
           Some err \<Rightarrow>
             (Inr (empty_result linkedin_url (''MATCH API error: '' @ py_str render err)), st1)
         | None \<Rightarrow>
             (let person = dict_get match ''person'' in
              if \<not> truthy person
              then (Inr (empty_result linkedin_url ''No match found.''), st1)
              else
                (case extract_all person st1 of
                   (Inl e, st2) \<Rightarrow> (Inl e, st2)
                 | (Inr extracted0, st2) \<Rightarrow>
                     (let extracted = AList.update ''lookup_used'' (JStr ''match'') extracted0 in
                      case subscript extracted ''verified_mobile_phone'' of
                        Inl e \<Rightarrow> (Inl e, st2)
                      | Inr mobile \<Rightarrow>
                          if truthy mobile then (Inr extracted, st2)
                          else
                            (case enrich_person net person st2 of
                               (Inl e, st3) \<Rightarrow> (Inl e, st3)
                             | (Inr enrich, st3) \<Rightarrow>
                                 (case map_of enrich ''error'' of
                                    Some err \<Rightarrow>
                                      (Inr (AList.update ''apollo_error''
                                              (JStr (''Enrich error: '' @ py_str render err))
                                              (AList.update ''lookup_used'' (JStr ''enrich'') extracted)),
                                       st3)
                                  | None \<Rightarrow>
                                      (let enriched_person = dict_get enrich ''person'' in
                                       if truthy enriched_person
                                       then
                                         (case extract_all enriched_person st3 of
                                            (Inl e, st4) \<Rightarrow> (Inl e, st4)
                                          | (Inr enriched, st4) \<Rightarrow>
                                              (Inr (AList.update ''input_linkedin_url''
                                                      (of_optional linkedin_url)
                                                      (AList.update ''lookup_used'' (JStr ''enrich'')
                                                         enriched)),
                                               st4))
                                       else
                                         (Inr (AList.update ''apollo_error''
                                                 (JStr ''No enrichment data returned.'')
                                                 (AList.update ''lookup_used'' (JStr ''enrich'')
                                                    extracted)),
                                          st3))))))))))"

subsection \<open>Batch processing: \<^verbatim>\<open>process_csv\<close> and \<^verbatim>\<open>_write_output\<close>\<close>

text \<open>
  A CSV file is taken as \<^verbatim>\<open>csv.reader\<close> yields it: one list of cells per line, the
  empty list for a blank line. The file system is the parameter \<open>fs\<close>: the file at
  a path, if the path exists.

  \<^verbatim>\<open>csv.DictReader\<close> on such a file: its \<^verbatim>\<open>fieldnames\<close> are the first line
  (\<^verbatim>\<open>None\<close> for a file without lines); it skips every later line that is blank
  (\<^verbatim>\<open>while row == []\<close>) and turns each other line into
  \<^verbatim>\<open>dict(zip(fieldnames, row))\<close>, the fields beyond a short line set to
  \<^verbatim>\<open>None\<close>. Cells beyond the header go under the key \<^verbatim>\<open>None\<close>, which no
  column name reads; they are left out.
\<close>

type_synonym csv_file = "string list list"

type_synonym row = "(string \<times> string option) list"

definition fieldnames :: "csv_file \<Rightarrow> string list option" where
  "fieldnames f = (case f of [] \<Rightarrow> None | header # lines \<Rightarrow> Some header)"

definition dict_row :: "string list \<Rightarrow> string list \<Rightarrow> row" where
  "dict_row names cells =
    foldl (\<lambda>d k. AList.update k None d)
      (foldl (\<lambda>d kv. AList.update (fst kv) (Some (snd kv)) d) [] (zip names cells))
      (drop (length cells) names)"

definition rows :: "csv_file \<Rightarrow> row list" where
  "rows f =
    (case f of
       [] \<Rightarrow> []
     | header # lines \<Rightarrow> map (dict_row header) (filter (\<lambda>cells. cells \<noteq> []) lines))"

definition row_get :: "row \<Rightarrow> string \<Rightarrow> string option" where
  "row_get r k = (case map_of r k of None \<Rightarrow> None | Some v \<Rightarrow> v)"

fun process_rows ::
  "network \<Rightarrow> (json \<Rightarrow> string) \<Rightarrow> string \<Rightarrow> row list \<Rightarrow> nat \<Rightarrow> pydict list \<Rightarrow> state
    \<Rightarrow> (error + pydict list) \<times> state" where
  "process_rows net render linkedin_column [] i results st = (Inr results, st)"
| "process_rows net render linkedin_column (r # rs) i results st =
    (case lookup_person net render (row_get r linkedin_column) st of
       (Inl e, st1) \<Rightarrow> (Inl e, st1)
     | (Inr result, st1) \<Rightarrow>
         process_rows net render linkedin_column rs (i + 1) (results @ [result])
           (if (i + 1) mod 10 = 0 then st1\<lparr>console := console st1 @ [Processed (i + 1)]\<rparr>
            else st1))"

text \<open>
  \<^verbatim>\<open>csv.DictWriter\<close> refuses a dict with a key outside its \<^verbatim>\<open>fieldnames\<close>
  (\<^verbatim>\<open>ValueError\<close>); the rows before it are already in the file.
\<close>

definition writable :: "pydict \<Rightarrow> bool" where
  "writable r = list_all (\<lambda>k. k \<in> set OUTPUT_FIELDNAMES) (map fst r)"

definition write_output :: "pydict list \<Rightarrow> string \<Rightarrow> string \<Rightarrow> state \<Rightarrow> (error + unit) \<times> state" where
  "write_output results output_path fmt st =
    (if fmt = ''csv'' then
       (if list_all writable results
        then (Inr (),
              st\<lparr>files := AList.update output_path (CsvFile OUTPUT_FIELDNAMES results) (files st),
                 console := console st @ [CsvSaved output_path]\<rparr>)
        else (Inl ValueError,
              st\<lparr>files := AList.update output_path
                          (CsvFile OUTPUT_FIELDNAMES (takeWhile writable results)) (files st)\<rparr>))
     else if fmt = ''json'' then
       (Inr (),
        st\<lparr>files := AList.update output_path (JsonFile results) (files st),
           console := console st @ [JsonSaved output_path]\<rparr>)
     else (Inr (), st\<lparr>console := console st @ [Unsupported]\<rparr>))"

definition process_csv ::
  "network \<Rightarrow> (json \<Rightarrow> string) \<Rightarrow> (string \<Rightarrow> csv_file option) \<Rightarrow> string \<Rightarrow> string \<Rightarrow> string \<Rightarrow> string
    \<Rightarrow> state \<Rightarrow> (error + unit) \<times> state" where
  "process_csv net render fs input_csv output_path output_format linkedin_column st =
    (case fs input_csv of
       None \<Rightarrow> (Inr (), st\<lparr>console := console st @ [InputNotFound input_csv]\<rparr>)
     | Some t \<Rightarrow>
         (case fieldnames t of
            None \<Rightarrow> (Inl TypeError, st)
          | Some names \<Rightarrow>
              if linkedin_column \<notin> set names
              then (Inr (), st\<lparr>console := console st @ [MissingColumn linkedin_column]\<rparr>)
              else
                (case process_rows net render linkedin_column (rows t) 0 [] st of
                   (Inl e, st1) \<Rightarrow> (Inl e, st1)
                 | (Inr results, st1) \<Rightarrow>
                     (case write_output results output_path output_format st1 of
                        (Inl e, st2) \<Rightarrow> (Inl e, st2)
                      | (Inr u, st2) \<Rightarrow>
                          (Inr (), st2\<lparr>console := console st2 @ [CreditSummary (credits st2)]\<rparr>)))))"

text \<open>A client as \<^verbatim>\<open>__init__\<close> leaves it, before any request, print or write.\<close>

definition init_state :: state where
  "init_state =
    \<lparr>credits = \<lparr>match_credits = 0, enrich_credits = 0, email_credits = 0, mobile_credits = 0\<rparr>,
     requests = [], console = [], files = []\<rparr>"

section \<open>Notions used to state the properties\<close>

text \<open>
  The shape the accessors of the code need so as not to raise: a person is a dict, its
  \<^verbatim>\<open>organization\<close> (when present) a dict, its \<^verbatim>\<open>emails\<close> and
  \<^verbatim>\<open>phone_numbers\<close> (when present) lists of dicts. A response is well formed when
  its \<^verbatim>\<open>person\<close>, if it counts as one (is not falsy), is such a person.
\<close>

definition is_dict :: "json \<Rightarrow> bool" where
  "is_dict v = (case v of JObj d \<Rightarrow> True | _ \<Rightarrow> False)"

definition is_dict_list :: "json \<Rightarrow> bool" where
  "is_dict_list v = (case v of JList xs \<Rightarrow> list_all is_dict xs | _ \<Rightarrow> False)"

definition wf_person :: "json \<Rightarrow> bool" where
  "wf_person p =
    (case p of
       JObj pd \<Rightarrow>
         is_dict (dict_get_default pd ''organization'' (JObj [])) \<and>
         is_dict_list (dict_get_default pd ''emails'' (JList [])) \<and>
         is_dict_list (dict_get_default pd ''phone_numbers'' (JList []))
     | _ \<Rightarrow> False)"

definition wf_response :: "http_result \<Rightarrow> bool" where
  "wf_response r =
    (case r of
       RequestException msg code \<Rightarrow> True
     | Body d \<Rightarrow> \<not> truthy (dict_get d ''person'') \<or> wf_person (dict_get d ''person''))"

definition wf_network :: "network \<Rightarrow> bool" where
  "wf_network net = (\<forall>n endpoint payload. wf_response (net n endpoint payload))"

text \<open>A field of a candidate; a candidate that is no dict has none.\<close>

definition json_field :: "json \<Rightarrow> string \<Rightarrow> json" where
  "json_field v k = (case v of JObj d \<Rightarrow> dict_get d k | _ \<Rightarrow> JNull)"

text \<open>
  The selection rules stated as searches, to compare the loops with: the first
  candidate, in list order, that is verified and of type work or email; the first phone
  candidate that is labelled mobile and verified, its sanitized number taken when that
  is not falsy and its raw number otherwise.
\<close>

definition qualifies_email :: "json \<Rightarrow> bool" where
  "qualifies_email e =
    (json_field e ''status'' = JStr ''verified'' \<and>
     (json_field e ''type'' = JStr ''work'' \<or> json_field e ''type'' = JStr ''email''))"

definition first_verified_email :: "json list \<Rightarrow> json" where
  "first_verified_email es =
    (case find qualifies_email es of None \<Rightarrow> JNull | Some e \<Rightarrow> json_field e ''email'')"

definition qualifies_phone :: "json \<Rightarrow> bool" where
  "qualifies_phone p =
    (json_field p ''label'' = JStr ''mobile'' \<and> json_field p ''status'' = JStr ''verified'')"

definition first_verified_mobile :: "json list \<Rightarrow> json" where
  "first_verified_mobile ps =
    (case find qualifies_phone ps of
       None \<Rightarrow> JNull
     | Some p \<Rightarrow>
         if truthy (json_field p ''sanitized_number'') then json_field p ''sanitized_number''
         else json_field p ''number'')"

text \<open>The candidates a helper's loop runs over, for a person it can iterate.\<close>

definition candidates :: "json \<Rightarrow> string \<Rightarrow> json list" where
  "candidates person k =
    (case person of
       JObj pd \<Rightarrow> (case py_iter (dict_get_default pd k (JList [])) of Inr xs \<Rightarrow> xs | Inl err \<Rightarrow> [])
     | _ \<Rightarrow> [])"

text \<open>The state with \<open>n\<close> more email credits, or mobile credits.\<close>

definition add_email_credits :: "int \<Rightarrow> state \<Rightarrow> state" where
  "add_email_credits n st =
    st\<lparr>credits := (credits st)\<lparr>email_credits := email_credits (credits st) + n\<rparr>\<rparr>"

definition add_mobile_credits :: "int \<Rightarrow> state \<Rightarrow> state" where
  "add_mobile_credits n st =
    st\<lparr>credits := (credits st)\<lparr>mobile_credits := mobile_credits (credits st) + n\<rparr>\<rparr>"

section \<open>Concrete inputs\<close>

text \<open>The three email candidates of the specification's example, told apart by address.\<close>

definition three_candidates :: "json list" where
  "three_candidates =
    [JObj [(''email'', JStr ''a@example.com''), (''status'', JStr ''unverified''),
           (''type'', JStr ''work'')],
     JObj [(''email'', JStr ''b@example.com''), (''status'', JStr ''verified''),
           (''type'', JStr ''personal'')],
     JObj [(''email'', JStr ''c@example.com''), (''status'', JStr ''verified''),
           (''type'', JStr ''work'')]]"

text \<open>A verified mobile with both number fields, and one whose sanitized number is empty.\<close>

definition phone_both :: pydict where
  "phone_both =
    [(''label'', JStr ''mobile''), (''status'', JStr ''verified''),
     (''sanitized_number'', JStr ''+15550100''), (''number'', JStr ''+1 555 0100'')]"

definition phone_blank_sanitized :: pydict where
  "phone_blank_sanitized =
    [(''label'', JStr ''mobile''), (''status'', JStr ''verified''),
     (''sanitized_number'', JStr ''''), (''number'', JStr ''+1 555 0100'')]"

text \<open>The rendering of non-string values plays no part in the examples.\<close>

definition render_any :: "json \<Rightarrow> string" where
  "render_any v = ''<object>''"

text \<open>
  A matched person with a verified mobile, whose profile URL differs from the one
  looked up, and a vendor that answers every request with it.
\<close>

definition person_with_mobile :: json where
  "person_with_mobile =
    JObj [(''linkedin_url'', JStr ''www/in/ada''), (''first_name'', JStr ''Ada''),
          (''phone_numbers'', JList [JObj phone_both])]"

definition net_mobile :: network where
  "net_mobile n endpoint payload = Body [(''person'', person_with_mobile)]"

text \<open>A verified mobile candidate whose only number is the empty string.\<close>

definition person_blank_number :: json where
  "person_blank_number =
    JObj [(''first_name'', JStr ''Ada''),
          (''phone_numbers'',
             JList [JObj [(''label'', JStr ''mobile''), (''status'', JStr ''verified''),
                          (''number'', JStr '''')]])]"

definition net_blank_number :: network where
  "net_blank_number n endpoint payload = Body [(''person'', person_blank_number)]"

text \<open>
  A matched person without phone numbers; one with a verified email and a verified
  mobile candidate that has no number; and an enriched person with both.
\<close>

definition person_plain :: json where
  "person_plain =
    JObj [(''linkedin_url'', JStr ''www/in/ada''), (''first_name'', JStr ''Ada''),
          (''last_name'', JStr ''Lovelace''), (''title'', JStr ''Analyst''), (''id'', JStr ''p1''),
          (''organization'',
             JObj [(''name'', JStr ''Engines''), (''industry'', JStr ''computing'')])]"

definition person_unnumbered :: json where
  "person_unnumbered =
    JObj [(''linkedin_url'', JStr ''www/in/ada''),
          (''emails'', JList three_candidates),
          (''phone_numbers'',
             JList [JObj [(''label'', JStr ''mobile''), (''status'', JStr ''verified'')]])]"

definition person_enriched :: json where
  "person_enriched =
    JObj [(''linkedin_url'', JStr ''www/in/ada-l''), (''first_name'', JStr ''Ada''),
          (''emails'', JList three_candidates),
          (''phone_numbers'', JList [JObj phone_both])]"

definition net_enrich_down :: network where
  "net_enrich_down n endpoint payload =
    (if endpoint = ''people/match'' then Body [(''person'', person_plain)]
     else RequestException ''Read timed out'' None)"

definition net_enrich_ok :: network where
  "net_enrich_ok n endpoint payload =
    (if endpoint = ''people/match'' then Body [(''person'', person_plain)]
     else Body [(''person'', person_enriched)])"

definition net_twice :: network where
  "net_twice n endpoint payload =
    (if endpoint = ''people/match'' then Body [(''person'', person_unnumbered)]
     else Body [(''person'', person_enriched)])"

definition net_down :: network where
  "net_down n endpoint payload = RequestException ''Connection refused'' None"

text \<open>
  An input file of a header and three lines: a row with an empty URL cell, a blank
  line and a row with a URL.
\<close>

definition two_rows :: csv_file where
  "two_rows =
    [[''name'', ''linkedin_url''],
     [''nobody'', ''''],
     [],
     [''Ada'', ''in/ada'']]"

definition fs_two_rows :: "string \<Rightarrow> csv_file option" where
  "fs_two_rows path = (if path = ''input.csv'' then Some two_rows else None)"

text \<open>
  A matched person whose \<^verbatim>\<open>organization\<close> is null, a vendor that answers with
  it, and an input file of one row.
\<close>

definition person_null_org :: json where
  "person_null_org =
    JObj [(''linkedin_url'', JStr ''www/in/ada''), (''first_name'', JStr ''Ada''),
          (''organization'', JNull)]"

definition net_null_org :: network where
  "net_null_org n endpoint payload = Body [(''person'', person_null_org)]"

definition one_row :: csv_file where
  "one_row = [[''linkedin_url''], [''in/ada'']]"

definition fs_one_row :: "string \<Rightarrow> csv_file option" where
  "fs_one_row path = (if path = ''input.csv'' then Some one_row else None)"

text \<open>
  A one-column input file of three data lines, the second an empty URL cell, that is,
  a blank line.
\<close>

definition blank_line_file :: csv_file where
  "blank_line_file = [[''linkedin_url''], [''in/ada''], [], [''in/bob'']]"

definition fs_blank_line :: "string \<Rightarrow> csv_file option" where
  "fs_blank_line path = (if path = ''input.csv'' then Some blank_line_file else None)"

section \<open>Properties\<close>

subsection \<open>The two selection loops\<close>

lemma add_email_credits_0: "add_email_credits 0 st = st"
  by (simp add: add_email_credits_def)

lemma add_mobile_credits_0: "add_mobile_credits 0 st = st"
  by (simp add: add_mobile_credits_def)

lemma qualifies_email_JObj: "qualifies_email (JObj e) = email_ok e"
  by (auto simp: qualifies_email_def email_ok_def json_field_def)

lemma qualifies_phone_JObj: "qualifies_phone (JObj p) = phone_ok p"
  by (simp add: qualifies_phone_def phone_ok_def json_field_def)

text \<open>
  When the email loop returns, it returns the specification's selection and has
  counted one credit exactly if a candidate qualified.
\<close>

lemma email_loop_Inr:
  "email_loop es st = (Inr v, st') \<Longrightarrow>
     v = first_verified_email es \<and>
     st' = add_email_credits (of_bool (list_ex qualifies_email es)) st"
proof (induction es st rule: email_loop.induct)
  case (1 st)
  then show ?case by (simp add: first_verified_email_def add_email_credits_0)
next
  case (2 e es st)
  show ?case
  proof (cases "email_ok e")
    case True
    with "2.prems" show ?thesis
      by (auto simp: first_verified_email_def qualifies_email_JObj json_field_def
          add_email_credits_def)
  next
    case False
    with "2.prems" have "email_loop es st = (Inr v, st')" by simp
    with False "2.IH" show ?thesis
      by (simp add: first_verified_email_def qualifies_email_JObj)
  qed
qed simp_all

lemma email_loop_total:
  "list_all is_dict es \<Longrightarrow> \<exists>v st'. email_loop es st = (Inr v, st')"
  by (induction es st rule: email_loop.induct) (simp_all add: is_dict_def)

lemma phone_loop_Inr:
  "phone_loop ps st = (Inr v, st') \<Longrightarrow>
     v = first_verified_mobile ps \<and>
     st' = add_mobile_credits (of_bool (list_ex qualifies_phone ps)) st"
proof (induction ps st rule: phone_loop.induct)
  case (1 st)
  then show ?case by (simp add: first_verified_mobile_def add_mobile_credits_0)
next
  case (2 p ps st)
  show ?case
  proof (cases "phone_ok p")
    case True
    with "2.prems" show ?thesis
      by (auto simp: first_verified_mobile_def qualifies_phone_JObj json_field_def
          add_mobile_credits_def py_or_def)
  next
    case False
    with "2.prems" have "phone_loop ps st = (Inr v, st')" by simp
    with False "2.IH" show ?thesis
      by (simp add: first_verified_mobile_def qualifies_phone_JObj)
  qed
qed simp_all

lemma phone_loop_total:
  "list_all is_dict ps \<Longrightarrow> \<exists>v st'. phone_loop ps st = (Inr v, st')"
  by (induction ps st rule: phone_loop.induct) (simp_all add: is_dict_def)

lemma extract_verified_email_Inr:
  assumes "extract_verified_email person st = (Inr v, st')"
  shows "v = first_verified_email (candidates person ''emails'') \<and>
         st' = add_email_credits
                 (of_bool (list_ex qualifies_email (candidates person ''emails''))) st"
  using assms
  by (auto simp: extract_verified_email_def candidates_def
      split: json.splits sum.splits dest: email_loop_Inr)

lemma extract_verified_mobile_Inr:
  assumes "extract_verified_mobile person st = (Inr v, st')"
  shows "v = first_verified_mobile (candidates person ''phone_numbers'') \<and>
         st' = add_mobile_credits
                 (of_bool (list_ex qualifies_phone (candidates person ''phone_numbers''))) st"
  using assms
  by (auto simp: extract_verified_mobile_def candidates_def
      split: json.splits sum.splits dest: phone_loop_Inr)

lemma extract_verified_email_total:
  assumes "wf_person person"
  shows "\<exists>v st'. extract_verified_email person st = (Inr v, st')"
  using assms
  by (auto simp: wf_person_def extract_verified_email_def is_dict_list_def
      split: json.splits intro: email_loop_total)

lemma extract_verified_mobile_total:
  assumes "wf_person person"
  shows "\<exists>v st'. extract_verified_mobile person st = (Inr v, st')"
  using assms
  by (auto simp: wf_person_def extract_verified_mobile_def is_dict_list_def
      split: json.splits intro: phone_loop_total)

text \<open>
  C4. For a person record whose \<^verbatim>\<open>emails\<close> is a list of dicts (or absent),
  \<^verbatim>\<open>extract_verified_email\<close> returns, without raising, the \<^verbatim>\<open>email\<close> of the first
  candidate in list order whose status is "verified" and whose type is "work" or
  "email", and null when no candidate qualifies.
\<close>

theorem extract_verified_email_first_match:
  assumes "dict_get_default pd ''emails'' (JList []) = JList es"
    and "list_all is_dict es"
  shows "fst (extract_verified_email (JObj pd) st) = Inr (first_verified_email es)"
proof -
  from assms(2) obtain v st' where run: "email_loop es st = (Inr v, st')"
    using email_loop_total by blast
  then have "v = first_verified_email es"
    by (simp add: email_loop_Inr)
  with run assms(1) show ?thesis
    by (simp add: extract_verified_email_def)
qed

text \<open>
  The example of C4: of the candidates unverified/work, verified/personal and
  verified/work, the third is selected.
\<close>

theorem extract_verified_email_first_match_witness:
  "dict_get_default [(''emails'', JList three_candidates)] ''emails'' (JList [])
     = JList three_candidates \<and>
   list_all is_dict three_candidates \<and>
   fst (extract_verified_email (JObj [(''emails'', JList three_candidates)]) init_state)
     = Inr (JStr ''c@example.com'')"
proof -
  have a: "dict_get_default [(''emails'', JList three_candidates)] ''emails'' (JList [])
            = JList three_candidates"
    by (simp add: dict_get_default_def)
  have b: "list_all is_dict three_candidates"
    by (simp add: three_candidates_def is_dict_def)
  have c: "first_verified_email three_candidates = JStr ''c@example.com''"
    by (simp add: three_candidates_def first_verified_email_def qualifies_email_def
        json_field_def dict_get_def dict_get_default_def)
  from extract_verified_email_first_match [OF a b, of init_state] a b c show ?thesis
    by simp
qed

text \<open>
  C5, as the code has it. For a person record whose \<^verbatim>\<open>phone_numbers\<close> is a list of
  dicts (or absent), \<^verbatim>\<open>extract_verified_mobile\<close> returns, without raising, a number
  of the first candidate in list order whose label is "mobile" and whose status is
  "verified": its \<^verbatim>\<open>sanitized_number\<close> when that is not falsy (neither null nor
  empty), its \<^verbatim>\<open>number\<close> otherwise; and null when no candidate qualifies.
\<close>

theorem extract_verified_mobile_first_match:
  assumes "dict_get_default pd ''phone_numbers'' (JList []) = JList ps"
    and "list_all is_dict ps"
  shows "fst (extract_verified_mobile (JObj pd) st) = Inr (first_verified_mobile ps)"
proof -
  from assms(2) obtain v st' where run: "phone_loop ps st = (Inr v, st')"
    using phone_loop_total by blast
  then have "v = first_verified_mobile ps"
    by (simp add: phone_loop_Inr)
  with run assms(1) show ?thesis
    by (simp add: extract_verified_mobile_def)
qed

theorem extract_verified_mobile_first_match_witness:
  "dict_get_default [(''phone_numbers'', JList [JObj phone_both])] ''phone_numbers'' (JList [])
     = JList [JObj phone_both] \<and>
   list_all is_dict [JObj phone_both] \<and>
   fst (extract_verified_mobile (JObj [(''phone_numbers'', JList [JObj phone_both])]) init_state)
     = Inr (JStr ''+15550100'')"
proof -
  have a: "dict_get_default [(''phone_numbers'', JList [JObj phone_both])] ''phone_numbers''
             (JList []) = JList [JObj phone_both]"
    by (simp add: dict_get_default_def)
  have b: "list_all is_dict [JObj phone_both]"
    by (simp add: is_dict_def)
  have c: "first_verified_mobile [JObj phone_both] = JStr ''+15550100''"
    by (simp add: phone_both_def first_verified_mobile_def qualifies_phone_def
        json_field_def dict_get_def dict_get_default_def)
  from extract_verified_mobile_first_match [OF a b, of init_state] a b c show ?thesis
    by simp
qed

text \<open>
  C5 as stated fails: the selected candidate has both fields, its sanitized number is
  the empty string, and the raw number is returned.
\<close>

theorem extract_verified_mobile_blank_sanitized:
  "map_of phone_blank_sanitized ''sanitized_number'' = Some (JStr '''') \<and>
   map_of phone_blank_sanitized ''number'' = Some (JStr ''+1 555 0100'') \<and>
   phone_ok phone_blank_sanitized \<and>
   fst (extract_verified_mobile
          (JObj [(''phone_numbers'', JList [JObj phone_blank_sanitized])]) init_state)
     = Inr (JStr ''+1 555 0100'')"
  by (simp add: phone_blank_sanitized_def phone_ok_def extract_verified_mobile_def
      dict_get_def dict_get_default_def py_or_def)

subsection \<open>Extraction of all fields\<close>

text \<open>
  When \<^verbatim>\<open>_extract_all\<close> returns, the person was a dict with a dict for its
  organization, the record has the thirteen fields in the order of
  \<open>OUTPUT_FIELDNAMES\<close>, and only the email and mobile counters have moved.
\<close>

lemma extract_all_Inr:
  assumes "extract_all person st = (Inr ex, st')"
  shows "\<exists>pd org.
           person = JObj pd \<and>
           dict_get_default pd ''organization'' (JObj []) = JObj org \<and>
           ex = [(''input_linkedin_url'', dict_get pd ''linkedin_url''),
                 (''first_name'', dict_get pd ''first_name''),
                 (''last_name'', dict_get pd ''last_name''),
                 (''job_title'', dict_get pd ''title''),
                 (''company_name'', dict_get org ''name''),
                 (''company_website'', dict_get org ''website_url''),
                 (''industry'', dict_get org ''industry''),
                 (''verified_email'', first_verified_email (candidates person ''emails'')),
                 (''verified_mobile_phone'',
                    first_verified_mobile (candidates person ''phone_numbers'')),
                 (''linkedin_url'', dict_get pd ''linkedin_url''),
                 (''apollo_person_id'', dict_get pd ''id''),
                 (''lookup_used'', JNull),
                 (''apollo_error'', JNull)] \<and>
           st' = add_mobile_credits
                   (of_bool (list_ex qualifies_phone (candidates person ''phone_numbers'')))
                   (add_email_credits
                     (of_bool (list_ex qualifies_email (candidates person ''emails''))) st)"
proof -
  from assms obtain pd where pd: "person = JObj pd"
    by (cases person) (simp_all add: extract_all_def)
  from assms pd obtain org where org: "dict_get_default pd ''organization'' (JObj []) = JObj org"
    by (cases "dict_get_default pd ''organization'' (JObj [])") (simp_all add: extract_all_def)
  obtain r1 st1 where e: "extract_verified_email person st = (r1, st1)"
    by (cases "extract_verified_email person st")
  with assms pd org obtain email where r1: "r1 = Inr email"
    by (cases r1) (simp_all add: extract_all_def)
  obtain r2 st2 where m: "extract_verified_mobile person st1 = (r2, st2)"
    by (cases "extract_verified_mobile person st1")
  with assms pd org e r1 obtain mobile where r2: "r2 = Inr mobile"
    by (cases r2) (simp_all add: extract_all_def)
  note E = extract_verified_email_Inr [OF e [unfolded r1]]
  note M = extract_verified_mobile_Inr [OF m [unfolded r2]]
  from assms pd org e r1 m r2 E M show ?thesis
    by (simp add: extract_all_def)
qed

lemma extract_all_keys:
  "extract_all person st = (Inr ex, st') \<Longrightarrow> map fst ex = OUTPUT_FIELDNAMES"
  by (drule extract_all_Inr) (auto simp: OUTPUT_FIELDNAMES_def)

lemma extract_all_total:
  assumes "wf_person person"
  shows "\<exists>ex st'. extract_all person st = (Inr ex, st')"
proof -
  from assms obtain pd where pd: "person = JObj pd"
    by (cases person) (simp_all add: wf_person_def)
  from assms pd obtain org where org: "dict_get_default pd ''organization'' (JObj []) = JObj org"
    by (cases "dict_get_default pd ''organization'' (JObj [])")
      (simp_all add: wf_person_def is_dict_def)
  from extract_verified_email_total [OF assms] obtain email st1
    where e: "extract_verified_email person st = (Inr email, st1)" by blast
  from extract_verified_mobile_total [OF assms] obtain mobile st2
    where m: "extract_verified_mobile person st1 = (Inr mobile, st2)" by blast
  from pd org e m show ?thesis
    by (simp add: extract_all_def)
qed

lemma extract_all_frame:
  assumes "extract_all person st = (Inr ex, st')"
  shows "requests st' = requests st" "console st' = console st" "files st' = files st"
    "match_credits (credits st') = match_credits (credits st)"
    "enrich_credits (credits st') = enrich_credits (credits st)"
    "email_credits (credits st') = email_credits (credits st)
       + of_bool (list_ex qualifies_email (candidates person ''emails''))"
    "mobile_credits (credits st') = mobile_credits (credits st)
       + of_bool (list_ex qualifies_phone (candidates person ''phone_numbers''))"
  using extract_all_Inr [OF assms]
  by (auto simp: add_mobile_credits_def add_email_credits_def)

text \<open>A person that \<^verbatim>\<open>_extract_all\<close> accepted does not make \<^verbatim>\<open>enrich_person\<close> raise.\<close>

lemma enrich_person_after_extract:
  assumes "extract_all person st = (Inr ex, st')"
  shows "\<exists>enrich s'. enrich_person net person s = (Inr enrich, s')"
proof -
  from extract_all_Inr [OF assms] obtain pd org
    where "person = JObj pd" "dict_get_default pd ''organization'' (JObj []) = JObj org"
    by blast
  then show ?thesis
    by (simp add: enrich_person_def Let_def split: prod.splits)
qed

lemma match_by_linkedin_frame:
  assumes "match_by_linkedin net url st = (match, st1)"
  shows "requests st1 = requests st @ [(''people/match'', match_payload url)]"
    "console st1 = console st" "files st1 = files st"
    "match_credits (credits st1) = match_credits (credits st) + 1"
    "enrich_credits (credits st1) = enrich_credits (credits st)"
    "email_credits (credits st1) = email_credits (credits st)"
    "mobile_credits (credits st1) = mobile_credits (credits st)"
  using assms
  by (auto simp: match_by_linkedin_def post_def Let_def split: http_result.splits)

lemma enrich_person_frame:
  assumes "enrich_person net person st = (Inr enrich, st1)"
  shows "length (requests st1) = Suc (length (requests st))"
    "console st1 = console st" "files st1 = files st"
    "match_credits (credits st1) = match_credits (credits st)"
    "enrich_credits (credits st1) = enrich_credits (credits st) + 1"
    "email_credits (credits st1) = email_credits (credits st)"
    "mobile_credits (credits st1) = mobile_credits (credits st)"
  using assms
  by (auto simp: enrich_person_def post_def Let_def split: http_result.splits json.splits)

subsection \<open>The paths of the lookup workflow\<close>

lemma dict_get_update:
  "dict_get (AList.update k v d) k' = (if k' = k then v else dict_get d k')"
  by (simp add: dict_get_def dict_get_default_def update_conv')

lemma subscript_mobile_after_extract:
  assumes "extract_all person st = (Inr ex, st')"
  shows "subscript (AList.update ''lookup_used'' v ex) ''verified_mobile_phone''
           = Inr (dict_get ex ''verified_mobile_phone'')"
  using extract_all_Inr [OF assms]
  by (auto simp: subscript_def update_conv' dict_get_def dict_get_default_def)

lemma empty_result_eq:
  "empty_result u err =
    [(''input_linkedin_url'', of_optional u), (''first_name'', JNull), (''last_name'', JNull),
     (''job_title'', JNull), (''company_name'', JNull), (''company_website'', JNull),
     (''industry'', JNull), (''verified_email'', JNull), (''verified_mobile_phone'', JNull),
     (''linkedin_url'', JNull), (''apollo_person_id'', JNull), (''lookup_used'', JNull),
     (''apollo_error'', JStr err)]"
  by (simp add: empty_result_def OUTPUT_FIELDNAMES_def)

lemma empty_result_keys: "map fst (empty_result u err) = OUTPUT_FIELDNAMES"
  by (simp add: empty_result_eq OUTPUT_FIELDNAMES_def)

text \<open>Match fails, or brings no person: the empty record with the input URL.\<close>

lemma lookup_person_no_match:
  assumes "url \<noteq> []"
    and "match_by_linkedin net url st = (match, st1)"
    and "map_of match ''error'' \<noteq> None \<or> \<not> truthy (dict_get match ''person'')"
  shows "lookup_person net render (Some url) st =
          (Inr (empty_result (Some url)
                  (case map_of match ''error'' of
                     Some err \<Rightarrow> ''MATCH API error: '' @ py_str render err
                   | None \<Rightarrow> ''No match found.'')), st1)"
  using assms
  by (auto simp: lookup_person_def Let_def split: option.splits)

text \<open>Match brings a person whose extracted mobile is not falsy: no second step.\<close>

lemma lookup_person_short_circuit:
  assumes "url \<noteq> []"
    and "match_by_linkedin net url st = (match, st1)"
    and "map_of match ''error'' = None"
    and "truthy (dict_get match ''person'')"
    and "extract_all (dict_get match ''person'') st1 = (Inr extracted, st2)"
    and "truthy (dict_get extracted ''verified_mobile_phone'')"
  shows "lookup_person net render (Some url) st
           = (Inr (AList.update ''lookup_used'' (JStr ''match'') extracted), st2)"
  using assms subscript_mobile_after_extract [OF assms(5)]
  by (simp add: lookup_person_def Let_def)

text \<open>Otherwise the enrich request is sent, and its answer decides.\<close>

lemma lookup_person_enrich_step:
  assumes "url \<noteq> []"
    and "match_by_linkedin net url st = (match, st1)"
    and "map_of match ''error'' = None"
    and "truthy (dict_get match ''person'')"
    and "extract_all (dict_get match ''person'') st1 = (Inr extracted, st2)"
    and "\<not> truthy (dict_get extracted ''verified_mobile_phone'')"
    and "enrich_person net (dict_get match ''person'') st2 = (Inr enrich, st3)"
  shows "lookup_person net render (Some url) st =
          (case map_of enrich ''error'' of
             Some err \<Rightarrow>
               (Inr (AList.update ''apollo_error'' (JStr (''Enrich error: '' @ py_str render err))
                       (AList.update ''lookup_used'' (JStr ''enrich'')
                          (AList.update ''lookup_used'' (JStr ''match'') extracted))), st3)
           | None \<Rightarrow>
               if truthy (dict_get enrich ''person'')
               then (case extract_all (dict_get enrich ''person'') st3 of
                       (Inl e, st4) \<Rightarrow> (Inl e, st4)
                     | (Inr enriched, st4) \<Rightarrow>
                         (Inr (AList.update ''input_linkedin_url'' (JStr url)
                                 (AList.update ''lookup_used'' (JStr ''enrich'') enriched)), st4))
               else (Inr (AList.update ''apollo_error'' (JStr ''No enrichment data returned.'')
                            (AList.update ''lookup_used'' (JStr ''enrich'')
                               (AList.update ''lookup_used'' (JStr ''match'') extracted))), st3))"
  using assms subscript_mobile_after_extract [OF assms(5)]
  by (simp add: lookup_person_def Let_def of_optional_def
      split: option.splits prod.splits sum.splits)

text \<open>
  C1, as the code has it. For a lookup on a non-empty URL where the match call returns
  a response without an \<^verbatim>\<open>error\<close> key and with a person payload, and extraction of
  that person yields a verified mobile phone that is not falsy (neither null nor
  empty), \<^verbatim>\<open>lookup_person\<close> returns the match-extracted record with
  \<^verbatim>\<open>lookup_used = "match"\<close>; the only request sent is the match request, and the
  enrich-credit counter is as before the lookup.
\<close>

theorem lookup_person_match_suffices:
  assumes "url \<noteq> []"
    and "match_by_linkedin net url st = (match, st1)"
    and "map_of match ''error'' = None"
    and "truthy (dict_get match ''person'')"
    and "extract_all (dict_get match ''person'') st1 = (Inr extracted, st2)"
    and "truthy (dict_get extracted ''verified_mobile_phone'')"
  shows "lookup_person net render (Some url) st
           = (Inr (AList.update ''lookup_used'' (JStr ''match'') extracted), st2) \<and>
         dict_get (AList.update ''lookup_used'' (JStr ''match'') extracted) ''lookup_used''
           = JStr ''match'' \<and>
         requests st2 = requests st @ [(''people/match'', match_payload url)] \<and>
         enrich_credits (credits st2) = enrich_credits (credits st)"
proof -
  have "requests st2 = requests st @ [(''people/match'', match_payload url)]"
    using extract_all_frame(1) [OF assms(5)] match_by_linkedin_frame(1) [OF assms(2)]
    by simp
  moreover have "enrich_credits (credits st2) = enrich_credits (credits st)"
    using extract_all_frame(5) [OF assms(5)] match_by_linkedin_frame(5) [OF assms(2)]
    by simp
  ultimately show ?thesis
    using lookup_person_short_circuit [OF assms] by (simp add: dict_get_update)
qed

theorem lookup_person_match_suffices_witness:
  "fst (lookup_person net_mobile render_any (Some ''in/ada'') init_state) =
     Inr [(''input_linkedin_url'', JStr ''www/in/ada''), (''first_name'', JStr ''Ada''),
          (''last_name'', JNull), (''job_title'', JNull), (''company_name'', JNull),
          (''company_website'', JNull), (''industry'', JNull), (''verified_email'', JNull),
          (''verified_mobile_phone'', JStr ''+15550100''),
          (''linkedin_url'', JStr ''www/in/ada''), (''apollo_person_id'', JNull),
          (''lookup_used'', JStr ''match''), (''apollo_error'', JNull)] \<and>
   map fst (requests (snd (lookup_person net_mobile render_any (Some ''in/ada'') init_state)))
     = [''people/match''] \<and>
   enrich_credits (credits (snd (lookup_person net_mobile render_any (Some ''in/ada'') init_state)))
     = 0"
proof -
  let ?m = "match_by_linkedin net_mobile ''in/ada'' init_state"
  let ?x = "extract_all (dict_get (fst ?m) ''person'') (snd ?m)"
  let ?ex = "[(''input_linkedin_url'', JStr ''www/in/ada''), (''first_name'', JStr ''Ada''),
          (''last_name'', JNull), (''job_title'', JNull), (''company_name'', JNull),
          (''company_website'', JNull), (''industry'', JNull), (''verified_email'', JNull),
          (''verified_mobile_phone'', JStr ''+15550100''),
          (''linkedin_url'', JStr ''www/in/ada''), (''apollo_person_id'', JNull),
          (''lookup_used'', JNull), (''apollo_error'', JNull)]"
  have h1: "''in/ada'' \<noteq> []" by simp
  have h2: "?m = (fst ?m, snd ?m)" by simp
  have h3: "map_of (fst ?m) ''error'' = None" by code_simp
  have h4: "truthy (dict_get (fst ?m) ''person'')" by code_simp
  have "fst ?x = Inr ?ex" by code_simp
  then have h5: "?x = (Inr ?ex, snd ?x)" by (simp add: prod_eq_iff)
  have h6: "truthy (dict_get ?ex ''verified_mobile_phone'')" by code_simp
  from lookup_person_match_suffices [OF h1 h2 h3 h4 h5 h6, of render_any]
  show ?thesis
    by (simp add: init_state_def)
qed

text \<open>
  C1 as stated fails. The match call succeeds with a person whose verified mobile
  candidate has the empty string for its number: extraction yields a mobile phone
  that is not null, and yet the enrich request is sent, the enrich-credit counter goes
  from 0 to 1 and the record says \<^verbatim>\<open>lookup_used = "enrich"\<close>.
\<close>

theorem lookup_person_blank_mobile_enriches:
  "net_blank_number 0 ''people/match'' (match_payload ''in/ada'')
     = Body [(''person'', person_blank_number)] \<and>
   fst (extract_verified_mobile person_blank_number init_state) = Inr (JStr '''') \<and>
   JStr '''' \<noteq> JNull \<and>
   fst (lookup_person net_blank_number render_any (Some ''in/ada'') init_state) =
     Inr [(''input_linkedin_url'', JStr ''in/ada''), (''first_name'', JStr ''Ada''),
          (''last_name'', JNull), (''job_title'', JNull), (''company_name'', JNull),
          (''company_website'', JNull), (''industry'', JNull), (''verified_email'', JNull),
          (''verified_mobile_phone'', JStr ''''), (''linkedin_url'', JNull),
          (''apollo_person_id'', JNull), (''lookup_used'', JStr ''enrich''),
          (''apollo_error'', JNull)] \<and>
   map fst (requests (snd (lookup_person net_blank_number render_any (Some ''in/ada'')
                             init_state)))
     = [''people/match'', ''people/enrich''] \<and>
   enrich_credits (credits init_state) = 0 \<and>
   enrich_credits (credits (snd (lookup_person net_blank_number render_any (Some ''in/ada'')
                                   init_state))) = 1"
  by code_simp

text \<open>
  C10. On the short-circuit path the record's \<^verbatim>\<open>input_linkedin_url\<close> is the
  \<^verbatim>\<open>linkedin_url\<close> of the vendor's matched person, the same value as the record's
  \<^verbatim>\<open>linkedin_url\<close>; nothing sets it to the URL that was looked up.
\<close>

theorem lookup_person_short_circuit_keeps_vendor_url:
  assumes "url \<noteq> []"
    and "match_by_linkedin net url st = (match, st1)"
    and "map_of match ''error'' = None"
    and "truthy (dict_get match ''person'')"
    and "extract_all (dict_get match ''person'') st1 = (Inr extracted, st2)"
    and "truthy (dict_get extracted ''verified_mobile_phone'')"
  shows "case lookup_person net render (Some url) st of
           (Inl e, st') \<Rightarrow> False
         | (Inr result, st') \<Rightarrow>
             dict_get result ''input_linkedin_url''
               = json_field (dict_get match ''person'') ''linkedin_url'' \<and>
             dict_get result ''linkedin_url''
               = json_field (dict_get match ''person'') ''linkedin_url''"
proof -
  from extract_all_Inr [OF assms(5)]
  have "dict_get extracted ''input_linkedin_url''
          = json_field (dict_get match ''person'') ''linkedin_url''"
    and "dict_get extracted ''linkedin_url''
          = json_field (dict_get match ''person'') ''linkedin_url''"
    by (auto simp: json_field_def dict_get_def dict_get_default_def)
  then show ?thesis
    using lookup_person_short_circuit [OF assms] by (simp add: dict_get_update)
qed

text \<open>
  The URL looked up is \<^verbatim>\<open>in/ada\<close>, the vendor's person carries \<^verbatim>\<open>www/in/ada\<close>:
  the record's \<^verbatim>\<open>input_linkedin_url\<close> is the vendor's.
\<close>

theorem lookup_person_short_circuit_keeps_vendor_url_witness:
  "case lookup_person net_mobile render_any (Some ''in/ada'') init_state of
     (Inl e, st') \<Rightarrow> False
   | (Inr result, st') \<Rightarrow>
       dict_get result ''input_linkedin_url'' = JStr ''www/in/ada'' \<and>
       dict_get result ''linkedin_url'' = JStr ''www/in/ada'' \<and>
       dict_get result ''input_linkedin_url'' \<noteq> JStr ''in/ada''"
proof -
  let ?m = "match_by_linkedin net_mobile ''in/ada'' init_state"
  let ?x = "extract_all (dict_get (fst ?m) ''person'') (snd ?m)"
  let ?ex = "[(''input_linkedin_url'', JStr ''www/in/ada''), (''first_name'', JStr ''Ada''),
          (''last_name'', JNull), (''job_title'', JNull), (''company_name'', JNull),
          (''company_website'', JNull), (''industry'', JNull), (''verified_email'', JNull),
          (''verified_mobile_phone'', JStr ''+15550100''),
          (''linkedin_url'', JStr ''www/in/ada''), (''apollo_person_id'', JNull),
          (''lookup_used'', JNull), (''apollo_error'', JNull)]"
  have h1: "''in/ada'' \<noteq> []" by simp
  have h2: "?m = (fst ?m, snd ?m)" by simp
  have h3: "map_of (fst ?m) ''error'' = None" by code_simp
  have h4: "truthy (dict_get (fst ?m) ''person'')" by code_simp
  have "fst ?x = Inr ?ex" by code_simp
  then have h5: "?x = (Inr ?ex, snd ?x)" by (simp add: prod_eq_iff)
  have h6: "truthy (dict_get ?ex ''verified_mobile_phone'')" by code_simp
  have v: "json_field (dict_get (fst ?m) ''person'') ''linkedin_url'' = JStr ''www/in/ada''"
    by code_simp
  from lookup_person_short_circuit_keeps_vendor_url [OF h1 h2 h3 h4 h5 h6, of render_any]
  show ?thesis
    unfolding v by (auto split: prod.splits sum.splits)
qed

text \<open>
  C2. Match succeeds with a person payload, the extracted mobile is falsy (none was
  found), and the enrich answer carries an \<^verbatim>\<open>error\<close> key (as \<^verbatim>\<open>_post\<close> builds
  it for a transport error) or no person payload. Then \<^verbatim>\<open>lookup_person\<close> returns
  the record extracted from the match response: its eleven data fields, among them
  name, title and company, are those of the match extraction, \<^verbatim>\<open>lookup_used\<close> is
  "enrich" and \<^verbatim>\<open>apollo_error\<close> is a message.
\<close>

theorem lookup_person_enrich_failure_keeps_match:
  assumes "url \<noteq> []"
    and "match_by_linkedin net url st = (match, st1)"
    and "map_of match ''error'' = None"
    and "truthy (dict_get match ''person'')"
    and "extract_all (dict_get match ''person'') st1 = (Inr extracted, st2)"
    and "\<not> truthy (dict_get extracted ''verified_mobile_phone'')"
    and "enrich_person net (dict_get match ''person'') st2 = (Inr enrich, st3)"
    and "map_of enrich ''error'' \<noteq> None \<or> \<not> truthy (dict_get enrich ''person'')"
  shows "case lookup_person net render (Some url) st of
           (Inl e, st') \<Rightarrow> False
         | (Inr result, st') \<Rightarrow>
             st' = st3 \<and>
             map fst result = OUTPUT_FIELDNAMES \<and>
             list_all (\<lambda>f. dict_get result f = dict_get extracted f)
               [''input_linkedin_url'', ''first_name'', ''last_name'', ''job_title'',
                ''company_name'', ''company_website'', ''industry'', ''verified_email'',
                ''verified_mobile_phone'', ''linkedin_url'', ''apollo_person_id''] \<and>
             dict_get result ''lookup_used'' = JStr ''enrich'' \<and>
             dict_get result ''apollo_error'' =
               JStr (case map_of enrich ''error'' of
                       Some err \<Rightarrow> ''Enrich error: '' @ py_str render err
                     | None \<Rightarrow> ''No enrichment data returned.'')"
proof -
  have keys: "map fst extracted = OUTPUT_FIELDNAMES"
    by (rule extract_all_keys [OF assms(5)])
  then have "map fst (AList.update ''apollo_error'' v
                (AList.update ''lookup_used'' w
                   (AList.update ''lookup_used'' w' extracted))) = OUTPUT_FIELDNAMES" for v w w'
    by (simp add: update_keys OUTPUT_FIELDNAMES_def)
  then show ?thesis
    using assms(8) lookup_person_enrich_step [OF assms(1-7), of render]
    by (auto simp: dict_get_update split: option.splits)
qed

text \<open>The enrich request times out: the match data stay, with the error noted.\<close>

theorem lookup_person_enrich_failure_keeps_match_witness:
  "fst (lookup_person net_enrich_down render_any (Some ''in/ada'') init_state) =
     Inr [(''input_linkedin_url'', JStr ''www/in/ada''), (''first_name'', JStr ''Ada''),
          (''last_name'', JStr ''Lovelace''), (''job_title'', JStr ''Analyst''),
          (''company_name'', JStr ''Engines''), (''company_website'', JNull),
          (''industry'', JStr ''computing''), (''verified_email'', JNull),
          (''verified_mobile_phone'', JNull), (''linkedin_url'', JStr ''www/in/ada''),
          (''apollo_person_id'', JStr ''p1''), (''lookup_used'', JStr ''enrich''),
          (''apollo_error'', JStr ''Enrich error: Read timed out'')]"
proof -
  let ?m = "match_by_linkedin net_enrich_down ''in/ada'' init_state"
  let ?x = "extract_all (dict_get (fst ?m) ''person'') (snd ?m)"
  let ?ex = "[(''input_linkedin_url'', JStr ''www/in/ada''), (''first_name'', JStr ''Ada''),
          (''last_name'', JStr ''Lovelace''), (''job_title'', JStr ''Analyst''),
          (''company_name'', JStr ''Engines''), (''company_website'', JNull),
          (''industry'', JStr ''computing''), (''verified_email'', JNull),
          (''verified_mobile_phone'', JNull), (''linkedin_url'', JStr ''www/in/ada''),
          (''apollo_person_id'', JStr ''p1''), (''lookup_used'', JNull),
          (''apollo_error'', JNull)]"
  let ?e = "enrich_person net_enrich_down (dict_get (fst ?m) ''person'') (snd ?x)"
  let ?en = "[(''error'', JStr ''Read timed out''), (''status_code'', JInt 500)]"
  have h1: "''in/ada'' \<noteq> []" by simp
  have h2: "?m = (fst ?m, snd ?m)" by simp
  have h3: "map_of (fst ?m) ''error'' = None" by code_simp
  have h4: "truthy (dict_get (fst ?m) ''person'')" by code_simp
  have "fst ?x = Inr ?ex" by code_simp
  then have h5: "?x = (Inr ?ex, snd ?x)" by (simp add: prod_eq_iff)
  have h6: "\<not> truthy (dict_get ?ex ''verified_mobile_phone'')" by code_simp
  have "fst ?e = Inr ?en" by code_simp
  then have h7: "?e = (Inr ?en, snd ?e)" by (simp add: prod_eq_iff)
  have h8: "map_of ?en ''error'' \<noteq> None \<or> \<not> truthy (dict_get ?en ''person'')" by simp
  from lookup_person_enrich_failure_keeps_match [OF h1 h2 h3 h4 h5 h6 h7 h8, of render_any]
  show ?thesis
    by code_simp
qed

text \<open>
  C3. Match succeeds with a person payload, the extracted mobile is falsy, and the
  enrich answer has no \<^verbatim>\<open>error\<close> key and a person payload that
  \<^verbatim>\<open>_extract_all\<close> accepts. Then \<^verbatim>\<open>lookup_person\<close> returns the record extracted
  from the enriched person, with \<^verbatim>\<open>lookup_used\<close> set to "enrich" and
  \<^verbatim>\<open>input_linkedin_url\<close> set to the URL that was looked up, whatever
  \<^verbatim>\<open>linkedin_url\<close> the enriched person carries.
\<close>

theorem lookup_person_enrich_success:
  assumes "url \<noteq> []"
    and "match_by_linkedin net url st = (match, st1)"
    and "map_of match ''error'' = None"
    and "truthy (dict_get match ''person'')"
    and "extract_all (dict_get match ''person'') st1 = (Inr extracted, st2)"
    and "\<not> truthy (dict_get extracted ''verified_mobile_phone'')"
    and "enrich_person net (dict_get match ''person'') st2 = (Inr enrich, st3)"
    and "map_of enrich ''error'' = None"
    and "truthy (dict_get enrich ''person'')"
    and "extract_all (dict_get enrich ''person'') st3 = (Inr enriched, st4)"
  shows "lookup_person net render (Some url) st
           = (Inr (AList.update ''input_linkedin_url'' (JStr url)
                     (AList.update ''lookup_used'' (JStr ''enrich'') enriched)), st4) \<and>
         dict_get (AList.update ''input_linkedin_url'' (JStr url)
                     (AList.update ''lookup_used'' (JStr ''enrich'') enriched))
            ''input_linkedin_url'' = JStr url \<and>
         dict_get (AList.update ''input_linkedin_url'' (JStr url)
                     (AList.update ''lookup_used'' (JStr ''enrich'') enriched))
            ''lookup_used'' = JStr ''enrich''"
  using assms(8-10) lookup_person_enrich_step [OF assms(1-7), of render]
  by (simp add: dict_get_update)

text \<open>
  The enriched person carries \<^verbatim>\<open>www/in/ada-l\<close>; the record keeps it as
  \<^verbatim>\<open>linkedin_url\<close> and has the URL looked up, \<^verbatim>\<open>in/ada\<close>, as
  \<^verbatim>\<open>input_linkedin_url\<close>.
\<close>

theorem lookup_person_enrich_success_witness:
  "fst (lookup_person net_enrich_ok render_any (Some ''in/ada'') init_state) =
     Inr [(''input_linkedin_url'', JStr ''in/ada''), (''first_name'', JStr ''Ada''),
          (''last_name'', JNull), (''job_title'', JNull), (''company_name'', JNull),
          (''company_website'', JNull), (''industry'', JNull),
          (''verified_email'', JStr ''c@example.com''),
          (''verified_mobile_phone'', JStr ''+15550100''),
          (''linkedin_url'', JStr ''www/in/ada-l''), (''apollo_person_id'', JNull),
          (''lookup_used'', JStr ''enrich''), (''apollo_error'', JNull)]"
proof -
  let ?m = "match_by_linkedin net_enrich_ok ''in/ada'' init_state"
  let ?x = "extract_all (dict_get (fst ?m) ''person'') (snd ?m)"
  let ?ex = "[(''input_linkedin_url'', JStr ''www/in/ada''), (''first_name'', JStr ''Ada''),
          (''last_name'', JStr ''Lovelace''), (''job_title'', JStr ''Analyst''),
          (''company_name'', JStr ''Engines''), (''company_website'', JNull),
          (''industry'', JStr ''computing''), (''verified_email'', JNull),
          (''verified_mobile_phone'', JNull), (''linkedin_url'', JStr ''www/in/ada''),
          (''apollo_person_id'', JStr ''p1''), (''lookup_used'', JNull),
          (''apollo_error'', JNull)]"
  let ?e = "enrich_person net_enrich_ok (dict_get (fst ?m) ''person'') (snd ?x)"
  let ?en = "[(''person'', person_enriched)]"
  let ?y = "extract_all (dict_get ?en ''person'') (snd ?e)"
  let ?ey = "[(''input_linkedin_url'', JStr ''www/in/ada-l''), (''first_name'', JStr ''Ada''),
          (''last_name'', JNull), (''job_title'', JNull), (''company_name'', JNull),
          (''company_website'', JNull), (''industry'', JNull),
          (''verified_email'', JStr ''c@example.com''),
          (''verified_mobile_phone'', JStr ''+15550100''),
          (''linkedin_url'', JStr ''www/in/ada-l''), (''apollo_person_id'', JNull),
          (''lookup_used'', JNull), (''apollo_error'', JNull)]"
  have h1: "''in/ada'' \<noteq> []" by simp
  have h2: "?m = (fst ?m, snd ?m)" by simp
  have h3: "map_of (fst ?m) ''error'' = None" by code_simp
  have h4: "truthy (dict_get (fst ?m) ''person'')" by code_simp
  have "fst ?x = Inr ?ex" by code_simp
  then have h5: "?x = (Inr ?ex, snd ?x)" by (simp add: prod_eq_iff)
  have h6: "\<not> truthy (dict_get ?ex ''verified_mobile_phone'')" by code_simp
  have "fst ?e = Inr ?en" by code_simp
  then have h7: "?e = (Inr ?en, snd ?e)" by (simp add: prod_eq_iff)
  have h8: "map_of ?en ''error'' = None" by simp
  have h9: "truthy (dict_get ?en ''person'')" by code_simp
  have "fst ?y = Inr ?ey" by code_simp
  then have h10: "?y = (Inr ?ey, snd ?y)" by (simp add: prod_eq_iff)
  from lookup_person_enrich_success [OF h1 h2 h3 h4 h5 h6 h7 h8 h9 h10, of render_any]
  show ?thesis
    by simp
qed

text \<open>
  C9. On the path where enrichment is attempted and returns a person payload,
  \<^verbatim>\<open>_extract_all\<close> runs on the match person and on the enriched person, and each run
  adds one to the email counter when an email candidate qualifies and one to the
  mobile counter when a phone candidate qualifies: over one lookup each counter grows
  by 0, 1 or 2.
\<close>

theorem lookup_person_enrich_counts_both_extractions:
  assumes "url \<noteq> []"
    and "match_by_linkedin net url st = (match, st1)"
    and "map_of match ''error'' = None"
    and "truthy (dict_get match ''person'')"
    and "extract_all (dict_get match ''person'') st1 = (Inr extracted, st2)"
    and "\<not> truthy (dict_get extracted ''verified_mobile_phone'')"
    and "enrich_person net (dict_get match ''person'') st2 = (Inr enrich, st3)"
    and "map_of enrich ''error'' = None"
    and "truthy (dict_get enrich ''person'')"
    and "extract_all (dict_get enrich ''person'') st3 = (Inr enriched, st4)"
  shows "case lookup_person net render (Some url) st of
           (Inl e, st') \<Rightarrow> False
         | (Inr result, st') \<Rightarrow>
             email_credits (credits st') = email_credits (credits st)
               + of_bool (list_ex qualifies_email
                            (candidates (dict_get match ''person'') ''emails''))
               + of_bool (list_ex qualifies_email
                            (candidates (dict_get enrich ''person'') ''emails'')) \<and>
             mobile_credits (credits st') = mobile_credits (credits st)
               + of_bool (list_ex qualifies_phone
                            (candidates (dict_get match ''person'') ''phone_numbers''))
               + of_bool (list_ex qualifies_phone
                            (candidates (dict_get enrich ''person'') ''phone_numbers''))"
proof -
  have "email_credits (credits st4) = email_credits (credits st)
          + of_bool (list_ex qualifies_email (candidates (dict_get match ''person'') ''emails''))
          + of_bool (list_ex qualifies_email (candidates (dict_get enrich ''person'') ''emails''))"
    using match_by_linkedin_frame(6) [OF assms(2)] extract_all_frame(6) [OF assms(5)]
      enrich_person_frame(6) [OF assms(7)] extract_all_frame(6) [OF assms(10)]
    by simp
  moreover have "mobile_credits (credits st4) = mobile_credits (credits st)
          + of_bool (list_ex qualifies_phone
                       (candidates (dict_get match ''person'') ''phone_numbers''))
          + of_bool (list_ex qualifies_phone
                       (candidates (dict_get enrich ''person'') ''phone_numbers''))"
    using match_by_linkedin_frame(7) [OF assms(2)] extract_all_frame(7) [OF assms(5)]
      enrich_person_frame(7) [OF assms(7)] extract_all_frame(7) [OF assms(10)]
    by simp
  ultimately show ?thesis
    using assms(8-10) lookup_person_enrich_step [OF assms(1-7), of render]
    by simp
qed

text \<open>
  One lookup that moves both counters from 0 to 2: the matched person has a verified
  work email and a verified mobile candidate without a number, the enriched person a
  verified work email and a verified mobile with a number.
\<close>

theorem lookup_person_enrich_counts_both_extractions_witness:
  "email_credits (credits init_state) = 0 \<and>
   mobile_credits (credits init_state) = 0 \<and>
   email_credits (credits (snd (lookup_person net_twice render_any (Some ''in/ada'') init_state)))
     = 2 \<and>
   mobile_credits (credits (snd (lookup_person net_twice render_any (Some ''in/ada'') init_state)))
     = 2"
proof -
  let ?m = "match_by_linkedin net_twice ''in/ada'' init_state"
  let ?x = "extract_all (dict_get (fst ?m) ''person'') (snd ?m)"
  let ?ex = "[(''input_linkedin_url'', JStr ''www/in/ada''), (''first_name'', JNull),
          (''last_name'', JNull), (''job_title'', JNull), (''company_name'', JNull),
          (''company_website'', JNull), (''industry'', JNull),
          (''verified_email'', JStr ''c@example.com''), (''verified_mobile_phone'', JNull),
          (''linkedin_url'', JStr ''www/in/ada''), (''apollo_person_id'', JNull),
          (''lookup_used'', JNull), (''apollo_error'', JNull)]"
  let ?e = "enrich_person net_twice (dict_get (fst ?m) ''person'') (snd ?x)"
  let ?en = "[(''person'', person_enriched)]"
  let ?y = "extract_all (dict_get ?en ''person'') (snd ?e)"
  let ?ey = "[(''input_linkedin_url'', JStr ''www/in/ada-l''), (''first_name'', JStr ''Ada''),
          (''last_name'', JNull), (''job_title'', JNull), (''company_name'', JNull),
          (''company_website'', JNull), (''industry'', JNull),
          (''verified_email'', JStr ''c@example.com''),
          (''verified_mobile_phone'', JStr ''+15550100''),
          (''linkedin_url'', JStr ''www/in/ada-l''), (''apollo_person_id'', JNull),
          (''lookup_used'', JNull), (''apollo_error'', JNull)]"
  have h1: "''in/ada'' \<noteq> []" by simp
  have h2: "?m = (fst ?m, snd ?m)" by simp
  have h3: "map_of (fst ?m) ''error'' = None" by code_simp
  have h4: "truthy (dict_get (fst ?m) ''person'')" by code_simp
  have "fst ?x = Inr ?ex" by code_simp
  then have h5: "?x = (Inr ?ex, snd ?x)" by (simp add: prod_eq_iff)
  have h6: "\<not> truthy (dict_get ?ex ''verified_mobile_phone'')" by code_simp
  have "fst ?e = Inr ?en" by code_simp
  then have h7: "?e = (Inr ?en, snd ?e)" by (simp add: prod_eq_iff)
  have h8: "map_of ?en ''error'' = None" by simp
  have h9: "truthy (dict_get ?en ''person'')" by code_simp
  have "fst ?y = Inr ?ey" by code_simp
  then have h10: "?y = (Inr ?ey, snd ?y)" by (simp add: prod_eq_iff)
  have c: "list_ex qualifies_email (candidates (dict_get (fst ?m) ''person'') ''emails'')"
    "list_ex qualifies_email (candidates (dict_get ?en ''person'') ''emails'')"
    "list_ex qualifies_phone (candidates (dict_get (fst ?m) ''person'') ''phone_numbers'')"
    "list_ex qualifies_phone (candidates (dict_get ?en ''person'') ''phone_numbers'')"
    by code_simp+
  from lookup_person_enrich_counts_both_extractions
         [OF h1 h2 h3 h4 h5 h6 h7 h8 h9 h10, of render_any]
  show ?thesis
    using c by (auto simp: init_state_def split: prod.splits sum.splits)
qed

text \<open>
  C6, as the code has it. For a null or an empty input URL \<^verbatim>\<open>lookup_person\<close> sends
  no request, changes no counter and returns the record whose thirteen fields are all
  null except \<^verbatim>\<open>apollo_error = "Empty LinkedIn URL."\<close>; in particular
  \<^verbatim>\<open>input_linkedin_url\<close> is null for both inputs.
\<close>

theorem lookup_person_empty_url:
  assumes "linkedin_url = None \<or> linkedin_url = Some []"
  shows "lookup_person net render linkedin_url st =
          (Inr [(''input_linkedin_url'', JNull), (''first_name'', JNull), (''last_name'', JNull),
                (''job_title'', JNull), (''company_name'', JNull), (''company_website'', JNull),
                (''industry'', JNull), (''verified_email'', JNull),
                (''verified_mobile_phone'', JNull), (''linkedin_url'', JNull),
                (''apollo_person_id'', JNull), (''lookup_used'', JNull),
                (''apollo_error'', JStr ''Empty LinkedIn URL.'')], st)"
  using assms by (auto simp: lookup_person_def empty_result_eq of_optional_def)

theorem lookup_person_empty_url_witness:
  "lookup_person net_down render_any None init_state =
     (Inr [(''input_linkedin_url'', JNull), (''first_name'', JNull), (''last_name'', JNull),
           (''job_title'', JNull), (''company_name'', JNull), (''company_website'', JNull),
           (''industry'', JNull), (''verified_email'', JNull),
           (''verified_mobile_phone'', JNull), (''linkedin_url'', JNull),
           (''apollo_person_id'', JNull), (''lookup_used'', JNull),
           (''apollo_error'', JStr ''Empty LinkedIn URL.'')], init_state) \<and>
   lookup_person net_down render_any (Some []) init_state =
     lookup_person net_down render_any None init_state"
  using lookup_person_empty_url [of None net_down render_any init_state]
    lookup_person_empty_url [of "Some []" net_down render_any init_state]
  by simp

text \<open>
  C6 as stated fails for the empty string: the record's \<^verbatim>\<open>input_linkedin_url\<close> is
  null, not the empty string that was given.
\<close>

theorem lookup_person_empty_string_not_carried:
  "fst (lookup_person net_down render_any (Some '''') init_state)
     = Inr (empty_result None ''Empty LinkedIn URL.'') \<and>
   dict_get (empty_result None ''Empty LinkedIn URL.'') ''input_linkedin_url'' = JNull \<and>
   of_optional (Some '''') = JStr '''' \<and>
   JNull \<noteq> JStr ''''"
  by code_simp

text \<open>
  C7. For a non-empty input URL where the match answer carries an \<^verbatim>\<open>error\<close> key
  (as \<^verbatim>\<open>_post\<close> builds it for a transport error) or no person payload,
  \<^verbatim>\<open>lookup_person\<close> returns the record whose data fields and \<^verbatim>\<open>lookup_used\<close>
  are all null, whose \<^verbatim>\<open>input_linkedin_url\<close> is the input and whose
  \<^verbatim>\<open>apollo_error\<close> is "MATCH API error: " followed by the error, or
  "No match found.".
\<close>

theorem lookup_person_match_failure:
  assumes "url \<noteq> []"
    and "match_by_linkedin net url st = (match, st1)"
    and "map_of match ''error'' \<noteq> None \<or> \<not> truthy (dict_get match ''person'')"
  shows "lookup_person net render (Some url) st =
          (Inr [(''input_linkedin_url'', JStr url), (''first_name'', JNull),
                (''last_name'', JNull), (''job_title'', JNull), (''company_name'', JNull),
                (''company_website'', JNull), (''industry'', JNull), (''verified_email'', JNull),
                (''verified_mobile_phone'', JNull), (''linkedin_url'', JNull),
                (''apollo_person_id'', JNull), (''lookup_used'', JNull),
                (''apollo_error'',
                   JStr (case map_of match ''error'' of
                           Some err \<Rightarrow> ''MATCH API error: '' @ py_str render err
                         | None \<Rightarrow> ''No match found.''))], st1)"
  using lookup_person_no_match [OF assms, of render]
  by (simp add: empty_result_eq of_optional_def)

theorem lookup_person_match_failure_witness:
  "fst (lookup_person net_down render_any (Some ''in/ada'') init_state) =
     Inr [(''input_linkedin_url'', JStr ''in/ada''), (''first_name'', JNull),
          (''last_name'', JNull), (''job_title'', JNull), (''company_name'', JNull),
          (''company_website'', JNull), (''industry'', JNull), (''verified_email'', JNull),
          (''verified_mobile_phone'', JNull), (''linkedin_url'', JNull),
          (''apollo_person_id'', JNull), (''lookup_used'', JNull),
          (''apollo_error'', JStr ''MATCH API error: Connection refused'')]"
proof -
  let ?m = "match_by_linkedin net_down ''in/ada'' init_state"
  have h1: "''in/ada'' \<noteq> []" by simp
  have h2: "?m = (fst ?m, snd ?m)" by simp
  have e: "map_of (fst ?m) ''error'' = Some (JStr ''Connection refused'')" by code_simp
  then have h3: "map_of (fst ?m) ''error'' \<noteq> None \<or> \<not> truthy (dict_get (fst ?m) ''person'')"
    by simp
  from lookup_person_match_failure [OF h1 h2 h3, of render_any]
  show ?thesis
    by (simp add: e py_str_def)
qed

subsection \<open>Batch processing\<close>

text \<open>A well-formed vendor never makes a request's answer raise further on.\<close>

lemma post_wf:
  assumes "wf_network net" and "post net endpoint payload st = (r, st')"
  shows "map_of r ''error'' \<noteq> None \<or> \<not> truthy (dict_get r ''person'')
           \<or> wf_person (dict_get r ''person'')"
proof (cases "net (length (requests st)) endpoint payload")
  case (RequestException msg code)
  with assms(2) show ?thesis by (auto simp: post_def Let_def)
next
  case (Body d)
  from assms(1) have "wf_response (net (length (requests st)) endpoint payload)"
    by (simp add: wf_network_def)
  with Body assms(2) show ?thesis by (auto simp: post_def Let_def wf_response_def)
qed

lemma match_by_linkedin_wf:
  assumes "wf_network net" and "match_by_linkedin net url st = (r, st')"
  shows "map_of r ''error'' \<noteq> None \<or> \<not> truthy (dict_get r ''person'')
           \<or> wf_person (dict_get r ''person'')"
  using assms(2) post_wf [OF assms(1)] by (simp add: match_by_linkedin_def Let_def)

lemma enrich_person_wf:
  assumes "wf_network net" and "enrich_person net person st = (Inr r, st')"
  shows "map_of r ''error'' \<noteq> None \<or> \<not> truthy (dict_get r ''person'')
           \<or> wf_person (dict_get r ''person'')"
  using assms(2) post_wf [OF assms(1)]
  by (auto simp: enrich_person_def Let_def split: json.splits prod.splits)

text \<open>
  With a well-formed vendor every lookup returns, and returns a record of the
  thirteen fields.
\<close>

lemma lookup_person_total:
  assumes "wf_network net"
  shows "\<exists>result st'. lookup_person net render linkedin_url st = (Inr result, st') \<and>
           map fst result = OUTPUT_FIELDNAMES"
proof (cases "linkedin_url = None \<or> linkedin_url = Some []")
  case True
  then show ?thesis
    by (auto simp: lookup_person_def empty_result_keys)
next
  case False
  then obtain url where url: "linkedin_url = Some url" "url \<noteq> []" by auto
  obtain match st1 where m: "match_by_linkedin net url st = (match, st1)"
    by (cases "match_by_linkedin net url st")
  show ?thesis
  proof (cases "map_of match ''error'' \<noteq> None \<or> \<not> truthy (dict_get match ''person'')")
    case True
    from lookup_person_no_match [OF url(2) m True, of render] url(1)
    show ?thesis by (simp add: empty_result_keys)
  next
    case False
    then have ok: "map_of match ''error'' = None" "truthy (dict_get match ''person'')" by auto
    with match_by_linkedin_wf [OF assms m] have "wf_person (dict_get match ''person'')" by simp
    from extract_all_total [OF this] obtain extracted st2
      where x: "extract_all (dict_get match ''person'') st1 = (Inr extracted, st2)" by blast
    note keys = extract_all_keys [OF x]
    show ?thesis
    proof (cases "truthy (dict_get extracted ''verified_mobile_phone'')")
      case True
      from lookup_person_short_circuit [OF url(2) m ok x True, of render] url(1) keys
      show ?thesis by (simp add: update_keys OUTPUT_FIELDNAMES_def)
    next
      case nomobile: False
      from enrich_person_after_extract [OF x] obtain enrich st3
        where e: "enrich_person net (dict_get match ''person'') st2 = (Inr enrich, st3)" by blast
      note step = lookup_person_enrich_step [OF url(2) m ok x nomobile e, of render]
      show ?thesis
      proof (cases "map_of enrich ''error'' = None \<and> truthy (dict_get enrich ''person'')")
        case True
        with enrich_person_wf [OF assms e] have "wf_person (dict_get enrich ''person'')" by simp
        from extract_all_total [OF this] obtain enriched st4
          where y: "extract_all (dict_get enrich ''person'') st3 = (Inr enriched, st4)" by blast
        from step True y url(1) extract_all_keys [OF y] show ?thesis
          by (simp add: update_keys OUTPUT_FIELDNAMES_def)
      next
        case False
        with step url(1) keys show ?thesis
          by (auto simp: update_keys OUTPUT_FIELDNAMES_def split: option.splits)
      qed
    qed
  qed
qed

text \<open>
  The loop over the rows appends one record per row, in order, to what it was given.
\<close>

lemma process_rows_total:
  assumes "wf_network net"
  shows "\<exists>new st'. process_rows net render col rs i results st = (Inr (results @ new), st') \<and>
           list_all2
             (\<lambda>r result.
                map fst result = OUTPUT_FIELDNAMES \<and>
                (\<exists>s s'. lookup_person net render (row_get r col) s = (Inr result, s')))
             rs new"
proof (induction rs arbitrary: i results st)
  case Nil
  then show ?case by simp
next
  case (Cons r rs)
  from lookup_person_total [OF assms] obtain result st1
    where l: "lookup_person net render (row_get r col) st = (Inr result, st1)"
      and k: "map fst result = OUTPUT_FIELDNAMES" by blast
  let ?st = "if (i + 1) mod 10 = 0 then st1\<lparr>console := console st1 @ [Processed (i + 1)]\<rparr>
             else st1"
  from Cons.IH [of "i + 1" "results @ [result]" ?st] obtain new st'
    where p: "process_rows net render col rs (i + 1) (results @ [result]) ?st
                = (Inr ((results @ [result]) @ new), st')"
      and a: "list_all2
                (\<lambda>r result.
                   map fst result = OUTPUT_FIELDNAMES \<and>
                   (\<exists>s s'. lookup_person net render (row_get r col) s = (Inr result, s')))
                rs new" by blast
  from l k a have "list_all2
                (\<lambda>r result.
                   map fst result = OUTPUT_FIELDNAMES \<and>
                   (\<exists>s s'. lookup_person net render (row_get r col) s = (Inr result, s')))
                (r # rs) (result # new)" by auto
  moreover from l p have "process_rows net render col (r # rs) i results st
                = (Inr (results @ result # new), st')" by simp
  ultimately show ?case by blast
qed

lemma writable_keys: "map fst r = OUTPUT_FIELDNAMES \<Longrightarrow> writable r"
  by (simp add: writable_def list_all_iff)

lemma rows_nonblank:
  "fieldnames t = Some names \<Longrightarrow>
     length (rows t) = length (filter (\<lambda>cells. cells \<noteq> []) (tl t))"
  by (cases t) (simp_all add: fieldnames_def rows_def)

text \<open>
  C8, as the code has it. For an input table that has the designated URL column and a
  vendor whose person payloads are well formed (a person is a dict, its organization a
  dict, its emails and phone numbers lists of dicts), \<^verbatim>\<open>process_csv\<close> returns,
  and the records it hands to \<^verbatim>\<open>_write_output\<close> are exactly one per row that
  \<^verbatim>\<open>csv.DictReader\<close> yields, that is, one per data line that is not blank, in the
  order of the rows: each is what \<^verbatim>\<open>lookup_person\<close> returned for the URL cell of
  its row and has exactly the thirteen fields of \<open>OUTPUT_FIELDNAMES\<close>, in that
  order, whatever the outcome of the lookup. For the formats csv and json these
  records are the content of the output file.
\<close>

theorem process_csv_one_record_per_row:
  assumes "wf_network net"
    and "fs input_csv = Some t"
    and "fieldnames t = Some names"
    and "linkedin_column \<in> set names"
  shows "\<exists>results st1 st'.
           process_rows net render linkedin_column (rows t) 0 [] st = (Inr results, st1) \<and>
           process_csv net render fs input_csv output_path output_format linkedin_column st
             = (Inr (), st') \<and>
           (output_format = ''csv'' \<longrightarrow>
              map_of (files st') output_path = Some (CsvFile OUTPUT_FIELDNAMES results)) \<and>
           (output_format = ''json'' \<longrightarrow>
              map_of (files st') output_path = Some (JsonFile results)) \<and>
           length results = length (rows t) \<and>
           length results = length (filter (\<lambda>cells. cells \<noteq> []) (tl t)) \<and>
           list_all2
             (\<lambda>r result.
                map fst result = OUTPUT_FIELDNAMES \<and> length result = 13 \<and>
                (\<exists>s s'. lookup_person net render (row_get r linkedin_column) s = (Inr result, s')))
             (rows t) results"
proof -
  from process_rows_total [OF assms(1), of render linkedin_column "rows t" 0 "[]" st]
  obtain results st1
    where p: "process_rows net render linkedin_column (rows t) 0 [] st = (Inr results, st1)"
      and a: "list_all2
                (\<lambda>r result.
                   map fst result = OUTPUT_FIELDNAMES \<and>
                   (\<exists>s s'. lookup_person net render (row_get r linkedin_column) s
                              = (Inr result, s')))
                (rows t) results"
    by auto
  from a have keys: "\<forall>r\<in>set results. map fst r = OUTPUT_FIELDNAMES"
    by (auto simp: list_all2_conv_all_nth in_set_conv_nth)
  then have w: "list_all writable results"
    by (simp add: list_all_iff writable_keys)
  have len: "length results = length (rows t)"
    using a by (simp add: list_all2_lengthD)
  with rows_nonblank [OF assms(3)]
  have len': "length results = length (filter (\<lambda>cells. cells \<noteq> []) (tl t))"
    by simp
  have "length r = 13" if "map fst r = OUTPUT_FIELDNAMES" for r :: pydict
  proof -
    from that have "length (map fst r) = length OUTPUT_FIELDNAMES" by simp
    then show ?thesis by (simp add: OUTPUT_FIELDNAMES_def)
  qed
  with a have b: "list_all2
             (\<lambda>r result.
                map fst result = OUTPUT_FIELDNAMES \<and> length result = 13 \<and>
                (\<exists>s s'. lookup_person net render (row_get r linkedin_column) s = (Inr result, s')))
             (rows t) results"
    by (auto elim!: list_all2_mono)
  from assms(2-4) p w have
    "\<exists>st'. process_csv net render fs input_csv output_path output_format linkedin_column st
       = (Inr (), st') \<and>
     (output_format = ''csv'' \<longrightarrow>
        map_of (files st') output_path = Some (CsvFile OUTPUT_FIELDNAMES results)) \<and>
     (output_format = ''json'' \<longrightarrow>
        map_of (files st') output_path = Some (JsonFile results))"
    by (simp add: process_csv_def write_output_def update_conv')
  with p len len' b show ?thesis by blast
qed

text \<open>
  A header and three lines, one of them blank: two records in the file, the first for
  the row with an empty URL and the second for the matched row, in that order.
\<close>

theorem process_csv_one_record_per_row_witness:
  "wf_network net_mobile \<and>
   length (tl two_rows) = 3 \<and>
   (\<exists>results st'.
      process_csv net_mobile render_any fs_two_rows ''input.csv'' ''out.csv'' ''csv''
        ''linkedin_url'' init_state = (Inr (), st') \<and>
      map_of (files st') ''out.csv'' = Some (CsvFile OUTPUT_FIELDNAMES results) \<and>
      length results = 2) \<and>
   map_of (files (snd (process_csv net_mobile render_any fs_two_rows ''input.csv'' ''out.csv''
                         ''csv'' ''linkedin_url'' init_state))) ''out.csv'' =
     Some (CsvFile OUTPUT_FIELDNAMES
       [[(''input_linkedin_url'', JNull), (''first_name'', JNull), (''last_name'', JNull),
         (''job_title'', JNull), (''company_name'', JNull), (''company_website'', JNull),
         (''industry'', JNull), (''verified_email'', JNull), (''verified_mobile_phone'', JNull),
         (''linkedin_url'', JNull), (''apollo_person_id'', JNull), (''lookup_used'', JNull),
         (''apollo_error'', JStr ''Empty LinkedIn URL.'')],
        [(''input_linkedin_url'', JStr ''www/in/ada''), (''first_name'', JStr ''Ada''),
         (''last_name'', JNull), (''job_title'', JNull), (''company_name'', JNull),
         (''company_website'', JNull), (''industry'', JNull), (''verified_email'', JNull),
         (''verified_mobile_phone'', JStr ''+15550100''),
         (''linkedin_url'', JStr ''www/in/ada''), (''apollo_person_id'', JNull),
         (''lookup_used'', JStr ''match''), (''apollo_error'', JNull)]])"
proof -
  have h1: "wf_network net_mobile"
    by (simp add: wf_network_def wf_response_def net_mobile_def person_with_mobile_def
        wf_person_def dict_get_def dict_get_default_def is_dict_def is_dict_list_def)
  have h2: "fs_two_rows ''input.csv'' = Some two_rows"
    by (simp add: fs_two_rows_def)
  have h3: "fieldnames two_rows = Some [''name'', ''linkedin_url'']"
    by (simp add: two_rows_def fieldnames_def)
  have h4: "''linkedin_url'' \<in> set [''name'', ''linkedin_url'']" by simp
  have n: "length (rows two_rows) = 2" by (simp add: two_rows_def rows_def)
  have l: "length (tl two_rows) = 3" by (simp add: two_rows_def)
  from process_csv_one_record_per_row
         [where fs = fs_two_rows and input_csv = "''input.csv''" and render = render_any
            and output_path = "''out.csv''" and output_format = "''csv''"
            and st = init_state, OF h1 h2 h3 h4]
  have a: "\<exists>results st'.
      process_csv net_mobile render_any fs_two_rows ''input.csv'' ''out.csv'' ''csv''
        ''linkedin_url'' init_state = (Inr (), st') \<and>
      map_of (files st') ''out.csv'' = Some (CsvFile OUTPUT_FIELDNAMES results) \<and>
      length results = 2"
    unfolding n by auto
  have b: "map_of (files (snd (process_csv net_mobile render_any fs_two_rows ''input.csv''
                         ''out.csv'' ''csv'' ''linkedin_url'' init_state))) ''out.csv'' =
     Some (CsvFile OUTPUT_FIELDNAMES
       [[(''input_linkedin_url'', JNull), (''first_name'', JNull), (''last_name'', JNull),
         (''job_title'', JNull), (''company_name'', JNull), (''company_website'', JNull),
         (''industry'', JNull), (''verified_email'', JNull), (''verified_mobile_phone'', JNull),
         (''linkedin_url'', JNull), (''apollo_person_id'', JNull), (''lookup_used'', JNull),
         (''apollo_error'', JStr ''Empty LinkedIn URL.'')],
        [(''input_linkedin_url'', JStr ''www/in/ada''), (''first_name'', JStr ''Ada''),
         (''last_name'', JNull), (''job_title'', JNull), (''company_name'', JNull),
         (''company_website'', JNull), (''industry'', JNull), (''verified_email'', JNull),
         (''verified_mobile_phone'', JStr ''+15550100''),
         (''linkedin_url'', JStr ''www/in/ada''), (''apollo_person_id'', JNull),
         (''lookup_used'', JStr ''match''), (''apollo_error'', JNull)]])"
    by code_simp
  from h1 l a b show ?thesis by blast
qed

text \<open>
  C8 as stated fails, in two ways. First, the table has the URL column and one row,
  the match call succeeds, and the matched person's \<^verbatim>\<open>organization\<close> is null:
  \<^verbatim>\<open>_extract_all\<close> raises \<^verbatim>\<open>AttributeError\<close> at \<^verbatim>\<open>org.get\<close>, nothing catches
  it in \<^verbatim>\<open>process_csv\<close>, and no record and no file is produced for the row.
  Second, a one-column table with three data lines, the second an empty URL cell: the
  reader drops the blank line, and two records are written for three rows.
\<close>

theorem process_csv_raise_or_blank_line_loses_record:
  "fs_one_row ''input.csv'' = Some one_row \<and>
   fieldnames one_row = Some [''linkedin_url''] \<and>
   length (tl one_row) = 1 \<and>
   net_null_org 0 ''people/match'' (match_payload ''in/ada'')
     = Body [(''person'', person_null_org)] \<and>
   fst (process_csv net_null_org render_any fs_one_row ''input.csv'' ''out.csv'' ''csv''
          ''linkedin_url'' init_state) = Inl AttributeError \<and>
   files (snd (process_csv net_null_org render_any fs_one_row ''input.csv'' ''out.csv'' ''csv''
                 ''linkedin_url'' init_state)) = [] \<and>
   fieldnames blank_line_file = Some [''linkedin_url''] \<and>
   length (tl blank_line_file) = 3 \<and>
   map_of (files (snd (process_csv net_down render_any fs_blank_line ''input.csv'' ''out.csv''
                         ''csv'' ''linkedin_url'' init_state))) ''out.csv'' =
     Some (CsvFile OUTPUT_FIELDNAMES
       [[(''input_linkedin_url'', JStr ''in/ada''), (''first_name'', JNull),
         (''last_name'', JNull), (''job_title'', JNull), (''company_name'', JNull),
         (''company_website'', JNull), (''industry'', JNull), (''verified_email'', JNull),
         (''verified_mobile_phone'', JNull), (''linkedin_url'', JNull),
         (''apollo_person_id'', JNull), (''lookup_used'', JNull),
         (''apollo_error'', JStr ''MATCH API error: Connection refused'')],
        [(''input_linkedin_url'', JStr ''in/bob''), (''first_name'', JNull),
         (''last_name'', JNull), (''job_title'', JNull), (''company_name'', JNull),
         (''company_website'', JNull), (''industry'', JNull), (''verified_email'', JNull),
         (''verified_mobile_phone'', JNull), (''linkedin_url'', JNull),
         (''apollo_person_id'', JNull), (''lookup_used'', JNull),
         (''apollo_error'', JStr ''MATCH API error: Connection refused'')]])"
  by code_simp

end
